theory Spec2Isabelle
  imports Complex_Main "HOL-Library.Char_ord" "HOL-Library.List_Lexorder"
begin

section \<open>Isolated pyannote diarization: the helper, the worker and the supervisor\<close>

text \<open>
  The development embeds \<^verbatim>\<open>pyannote_mps_helper.py\<close> and \<^verbatim>\<open>pyannote_isolated.py\<close>.
  Everything the Python code obtains from outside (torch, pyannote, pathlib, ffmpeg, the
  clock, the operating system's processes) is a field of a record describing the
  environment, so that every function below is a total, executable function of its
  arguments, the environment and an explicit state. The state holds the file system and
  a trace of the effects issued, in order. Printing is not modelled.
\<close>

subsection \<open>Values\<close>

text \<open>The \<^verbatim>\<open>type\<close> of a \<^verbatim>\<open>torch.device\<close>.\<close>

datatype device = CPU | MPS | CUDA

fun str_device :: "device \<Rightarrow> string" where
  "str_device CPU = ''cpu''"
| "str_device MPS = ''mps''"
| "str_device CUDA = ''cuda''"

text \<open>
  A raised exception: the class that decides which \<^verbatim>\<open>except\<close> clause takes it, and
  \<^verbatim>\<open>str(e)\<close>. \<open>RuntimeError\<close> stands for \<^verbatim>\<open>RuntimeError\<close> and its subclasses; every
  class here derives from \<^verbatim>\<open>Exception\<close>, and only \<open>RuntimeError\<close> is matched by
  \<^verbatim>\<open>except RuntimeError\<close>.
\<close>

datatype exn_class =
  RuntimeError | CalledProcessError | ValueError | AttributeError | UnboundLocalError
  | OSError | OtherException

datatype exn = Exn (exn_class: exn_class) (str_exn: string)

text \<open>
  A JSON value, which is also the Python value \<^verbatim>\<open>json.load\<close> returns and \<^verbatim>\<open>json.dump\<close>
  takes. A \<^verbatim>\<open>dict\<close> is the list of its items in insertion order. Python floats are
  represented by rationals; no float arithmetic is performed by the code under study.
\<close>

datatype json =
  JNull | JBool bool | JNum rat | JStr string | JArr "json list" | JObj "(string \<times> json) list"

text \<open>\<^verbatim>\<open>d.get(k)\<close>, with \<^verbatim>\<open>None\<close> as \<open>JNull\<close>.\<close>

definition dict_get :: "(string \<times> json) list \<Rightarrow> string \<Rightarrow> json" where
  "dict_get d k = (case map_of d k of None \<Rightarrow> JNull | Some v \<Rightarrow> v)"

text \<open>Python's truth value of a JSON value.\<close>

fun truthy :: "json \<Rightarrow> bool" where
  "truthy JNull = False"
| "truthy (JBool b) = b"
| "truthy (JNum x) = (x \<noteq> 0)"
| "truthy (JStr s) = (s \<noteq> [])"
| "truthy (JArr xs) = (xs \<noteq> [])"
| "truthy (JObj d) = (d \<noteq> [])"

text \<open>
  What a file holds, as far as \<^verbatim>\<open>json.load\<close> can tell: a document, or bytes on which the
  parser raises (the empty file among them).
\<close>

datatype content = Unparsable | Doc json

type_synonym filesys = "string \<rightharpoonup> content"

text \<open>The effects that the claims speak about, as they are issued.\<close>

datatype action =
    TensorToMps | TensorMul | TensorDel
  | MpsEmptyCache | CudaEmptyCache | GcCollect
  | PipelineTo device
  | RunPipeline device string
  | Ffmpeg string string
  | WriteJson string json
  | Unlink string
  | CreateTemp string
  | Start | Join nat | Terminate | Kill

record state =
  files :: filesys
  trace :: "action list"

definition emit :: "action list \<Rightarrow> 'a state_scheme \<Rightarrow> 'a state_scheme" where
  "emit as s = s\<lparr>trace := trace s @ as\<rparr>"

text \<open>\<^verbatim>\<open>with open(path, 'w') as f: json.dump(result, f, indent=2)\<close>\<close>

definition write_json :: "string \<Rightarrow> json \<Rightarrow> 'a state_scheme \<Rightarrow> 'a state_scheme" where
  "write_json path result s =
     emit [WriteJson path result] (s\<lparr>files := (files s)(path \<mapsto> Doc result)\<rparr>)"

text \<open>\<^verbatim>\<open>if os.path.exists(path): os.unlink(path)\<close>\<close>

definition unlink_if_exists :: "string \<Rightarrow> 'a state_scheme \<Rightarrow> 'a state_scheme" where
  "unlink_if_exists path s =
     (if files s path \<noteq> None
      then emit [Unlink path] (s\<lparr>files := (files s)(path := None)\<rparr>)
      else s)"

subsection \<open>Strings\<close>

text \<open>\<^verbatim>\<open>str.lower\<close> on ASCII letters.\<close>

definition lower_char :: "char \<Rightarrow> char" where
  "lower_char c =
     (case map_of (zip ''ABCDEFGHIJKLMNOPQRSTUVWXYZ'' ''abcdefghijklmnopqrstuvwxyz'') c of
        Some l \<Rightarrow> l
      | None \<Rightarrow> c)"

definition lower :: "string \<Rightarrow> string" where
  "lower s = map lower_char s"

text \<open>\<^verbatim>\<open>sub in s\<close> for strings.\<close>

fun starts_with :: "string \<Rightarrow> string \<Rightarrow> bool" where
  "starts_with [] s = True"
| "starts_with (c # cs) [] = False"
| "starts_with (c # cs) (d # ds) = (c = d \<and> starts_with cs ds)"

fun contains :: "string \<Rightarrow> string \<Rightarrow> bool" where
  "contains sub [] = (sub = [])"
| "contains sub (c # cs) = (starts_with sub (c # cs) \<or> contains sub cs)"

text \<open>
  The test both modules apply to a caught \<^verbatim>\<open>RuntimeError\<close>:
  \<^verbatim>\<open>'out of memory' in str(e).lower() or 'memory' in str(e).lower()\<close>.
\<close>

definition is_memory_error :: "exn \<Rightarrow> bool" where
  "is_memory_error e =
     (contains ''out of memory'' (lower (str_exn e)) \<or> contains ''memory'' (lower (str_exn e)))"

subsection \<open>The environment of the helper and the worker\<close>

text \<open>One track of \<^verbatim>\<open>diarization.itertracks(yield_label=True)\<close>: start, end, label.\<close>

record track =
  turn_start :: rat
  turn_end :: rat
  speaker :: string

text \<open>The steps of the self-test of \<^verbatim>\<open>get_safe_device\<close>, in the order of the code.\<close>

datatype selftest_step = Allocate | Multiply | Release | Purge | Collect

record pipeline =
  on_device :: device
  embedding_batch_size :: "nat option"

record world =
  pyannote_available :: bool
    \<comment> \<open>\<^verbatim>\<open>PYANNOTE_AVAILABLE\<close>\<close>
  has_mps_backend :: bool
    \<comment> \<open>\<^verbatim>\<open>hasattr(torch.backends, 'mps')\<close>\<close>
  mps_is_available :: bool
    \<comment> \<open>\<^verbatim>\<open>torch.backends.mps.is_available()\<close>\<close>
  selftest_failure :: "(selftest_step \<times> exn) option"
    \<comment> \<open>the step of the self-test that raises, if one does\<close>
  from_pretrained :: "exn + pipeline"
    \<comment> \<open>\<^verbatim>\<open>Pipeline.from_pretrained(model_name, ...)\<close>\<close>
  has_batch_attr :: bool
    \<comment> \<open>\<^verbatim>\<open>hasattr(pipeline, 'embedding_batch_size')\<close>\<close>
  to_raises :: "device \<Rightarrow> exn option"
    \<comment> \<open>whether \<^verbatim>\<open>pipeline.to(device)\<close> raises\<close>
  seg_param_device :: "string option"
    \<comment> \<open>\<^verbatim>\<open>str(first_param.device)\<close> of the segmentation model, when it can be read\<close>
  with_suffix :: "string \<Rightarrow> string \<Rightarrow> exn + string"
    \<comment> \<open>\<^verbatim>\<open>str(Path(p).with_suffix(s))\<close>\<close>
  ffmpeg_raises :: "exn option"
    \<comment> \<open>whether \<^verbatim>\<open>subprocess.run([...], check=True)\<close> raises\<close>
  inference :: "nat \<Rightarrow> exn + track list"
    \<comment> \<open>the outcome of the n-th call \<^verbatim>\<open>pipeline(audio)\<close> of the process, from 0\<close>
  elapsed :: rat
    \<comment> \<open>\<^verbatim>\<open>time.time() - start_time\<close>\<close>

subsection \<open>\<^verbatim>\<open>pyannote_mps_helper.py\<close>\<close>

text \<open>
  The body of the \<^verbatim>\<open>try\<close> of \<^verbatim>\<open>get_safe_device\<close>: the effects of the steps that complete,
  and the exception of the step that raises.
\<close>

fun steps_before :: "selftest_step \<Rightarrow> action list" where
  "steps_before Allocate = []"
| "steps_before Multiply = [TensorToMps]"
| "steps_before Release = [TensorToMps, TensorMul]"
| "steps_before Purge = [TensorToMps, TensorMul, TensorDel]"
| "steps_before Collect = [TensorToMps, TensorMul, TensorDel, MpsEmptyCache]"

definition selftest :: "world \<Rightarrow> state \<Rightarrow> exn option \<times> state" where
  "selftest w s =
     (case selftest_failure w of
        None \<Rightarrow> (None, emit [TensorToMps, TensorMul, TensorDel, MpsEmptyCache, GcCollect] s)
      | Some (k, e) \<Rightarrow> (Some e, emit (steps_before k) s))"

definition get_safe_device :: "world \<Rightarrow> bool \<Rightarrow> bool \<Rightarrow> state \<Rightarrow> device \<times> state" where
  "get_safe_device w prefer_mps fallback_to_cpu s =
     (if prefer_mps \<and> has_mps_backend w \<and> mps_is_available w then
        (case selftest w s of
           (None, s1) \<Rightarrow> (MPS, s1)
         | (Some e, s1) \<Rightarrow> (if fallback_to_cpu then (CPU, s1) else (CPU, s1)))
      else (CPU, s))"

text \<open>\<^verbatim>\<open>pipeline.to(device)\<close>\<close>

definition pipeline_to :: "world \<Rightarrow> pipeline \<Rightarrow> device \<Rightarrow> state \<Rightarrow> (exn + pipeline) \<times> state" where
  "pipeline_to w p d s =
     (case to_raises w d of
        Some e \<Rightarrow> (Inl e, s)
      | None \<Rightarrow> (Inr (p\<lparr>on_device := d\<rparr>), emit [PipelineTo d] s))"

text \<open>
  \<^verbatim>\<open>create_pyannote_pipeline_safe\<close>. The check of the segmentation model's device after
  the move only prints and is left out.
\<close>

definition create_pyannote_pipeline_safe ::
  "world \<Rightarrow> bool \<Rightarrow> nat option \<Rightarrow> state \<Rightarrow> (exn + pipeline) \<times> state" where
  "create_pyannote_pipeline_safe w prefer_mps batch s =
     (case get_safe_device w prefer_mps True s of (device, s1) \<Rightarrow>
      (case from_pretrained w of
         Inl e \<Rightarrow> (Inl e, s1)
       | Inr p0 \<Rightarrow>
          (let p1 = (if device = MPS \<and> has_batch_attr w
                     then p0\<lparr>embedding_batch_size :=
                              (if batch = None then Some 16 else batch)\<rparr>
                     else p0)
           in (case pipeline_to w p1 device s1 of
                 (Inr p2, s2) \<Rightarrow> (Inr p2, s2)
               | (Inl e, s2) \<Rightarrow>
                   (if device = MPS
                    then (case pipeline_to w p1 CPU s2 of
                            (Inr p3, s3) \<Rightarrow> (Inr p3, s3)
                          | (Inl e', s3) \<Rightarrow> (Inl e', s3))
                    else (Inr p1, s2))))))"

text \<open>The cache clearing that \<^verbatim>\<open>process_with_memory_management\<close> does for a device.\<close>

definition clear_cache :: "device \<Rightarrow> state \<Rightarrow> state" where
  "clear_cache device s =
     emit [GcCollect]
       (if device = MPS then emit [MpsEmptyCache] s
        else if device = CUDA then emit [CudaEmptyCache] s
        else s)"

text \<open>
  \<^verbatim>\<open>pipeline(audio_file)\<close>: the environment's outcome for this call, which is numbered
  by the calls already made.
\<close>

fun is_run :: "action \<Rightarrow> bool" where
  "is_run (RunPipeline d f) = True"
| "is_run a = False"

definition runs :: "action list \<Rightarrow> action list" where
  "runs tr = filter is_run tr"

definition run_pipeline :: "world \<Rightarrow> pipeline \<Rightarrow> string \<Rightarrow> state \<Rightarrow> (exn + track list) \<times> state" where
  "run_pipeline w p audio s =
     (inference w (length (runs (trace s))), emit [RunPipeline (on_device p) audio] s)"

text \<open>
  \<^verbatim>\<open>process_with_memory_management\<close>. Its \<^verbatim>\<open>except RuntimeError\<close> clause prints and
  re-raises; every other exception passes through it.
\<close>

definition process_with_memory_management ::
  "world \<Rightarrow> pipeline \<Rightarrow> string \<Rightarrow> device \<Rightarrow> state \<Rightarrow> (exn + track list) \<times> state" where
  "process_with_memory_management w p audio_file device s =
     (case run_pipeline w p audio_file (clear_cache device s) of
        (Inr result, s1) \<Rightarrow> (Inr result, clear_cache device s1)
      | (Inl e, s1) \<Rightarrow> (Inl e, s1))"

subsection \<open>\<^verbatim>\<open>pyannote_isolated.py\<close>: the worker \<^verbatim>\<open>diarize_isolated\<close>\<close>

text \<open>
  \<^verbatim>\<open>torch.device('mps') if use_mps and torch.backends.mps.is_available() else
  torch.device('cpu')\<close>; the attribute access raises where torch has no MPS backend.
\<close>

definition worker_device :: "world \<Rightarrow> bool \<Rightarrow> exn + device" where
  "worker_device w use_mps =
     (if use_mps then
        (if has_mps_backend w
         then Inr (if mps_is_available w then MPS else CPU)
         else Inl (Exn AttributeError ''module torch.backends has no attribute mps''))
      else Inr CPU)"

text \<open>The conversion to 16 kHz mono; on success the converted file exists.\<close>

definition ffmpeg :: "world \<Rightarrow> string \<Rightarrow> string \<Rightarrow> state \<Rightarrow> exn option \<times> state" where
  "ffmpeg w src dst s =
     (case ffmpeg_raises w of
        Some e \<Rightarrow> (Some e, emit [Ffmpeg src dst] s)
      | None \<Rightarrow> (None, emit [Ffmpeg src dst] (s\<lparr>files := (files s)(dst \<mapsto> Unparsable)\<rparr>)))"

text \<open>The loop over \<^verbatim>\<open>diarization.itertracks(yield_label=True)\<close>.\<close>

definition segment_json :: "track \<Rightarrow> json" where
  "segment_json t =
     JObj [(''start'', JNum (turn_start t)), (''end'', JNum (turn_end t)),
           (''speaker'', JStr (speaker t))]"

fun extract_segments :: "track list \<Rightarrow> json list" where
  "extract_segments [] = []"
| "extract_segments (t # ts) = segment_json t # extract_segments ts"

text \<open>
  \<^verbatim>\<open>seg['speaker']\<close> and \<^verbatim>\<open>sorted(list(set(seg['speaker'] for seg in speaker_segments)))\<close>;
  strings are ordered as Python orders them, lexicographically by character code.
\<close>

definition seg_speaker :: "json \<Rightarrow> string" where
  "seg_speaker seg =
     (case seg of
        JObj d \<Rightarrow> (case dict_get d ''speaker'' of JStr l \<Rightarrow> l | _ \<Rightarrow> [])
      | _ \<Rightarrow> [])"

definition speakers_of :: "json list \<Rightarrow> string list" where
  "speakers_of speaker_segments = sort (remdups (map seg_speaker speaker_segments))"

text \<open>The three dictionaries the worker writes.\<close>

definition success_result :: "json list \<Rightarrow> string \<Rightarrow> rat \<Rightarrow> json" where
  "success_result speaker_segments device_str elapsed_time =
     JObj [(''success'', JBool True),
           (''speakers'', JArr (map JStr (speakers_of speaker_segments))),
           (''segments'', JArr speaker_segments),
           (''total_segments'', JNum (of_nat (length speaker_segments))),
           (''device_used'', JStr device_str),
           (''processing_time'', JNum elapsed_time)]"

definition fallback_result :: "json list \<Rightarrow> exn \<Rightarrow> json" where
  "fallback_result speaker_segments e =
     JObj [(''success'', JBool True),
           (''speakers'', JArr (map JStr (speakers_of speaker_segments))),
           (''segments'', JArr speaker_segments),
           (''total_segments'', JNum (of_nat (length speaker_segments))),
           (''device_used'', JStr ''cpu''),
           (''fallback_cpu'', JBool True),
           (''error'', JStr (str_exn e))]"

definition failure_result :: "string \<Rightarrow> json" where
  "failure_result msg = JObj [(''success'', JBool False), (''error'', JStr msg)]"

text \<open>
  The body of the outer \<^verbatim>\<open>try\<close>. An exception leaves it together with the local
  variables \<^verbatim>\<open>pipeline\<close> and \<^verbatim>\<open>converted_path\<close> as far as they are bound, since the
  handler reads them.
\<close>

definition diarize_try ::
  "world \<Rightarrow> string \<Rightarrow> string \<Rightarrow> bool \<Rightarrow> nat \<Rightarrow> state
   \<Rightarrow> ((exn \<times> pipeline option \<times> string option) + json) \<times> state" where
  "diarize_try w audio_file_path output_json_path use_mps batch_size s =
     (case create_pyannote_pipeline_safe w use_mps (Some batch_size) s of
        (Inl e, s1) \<Rightarrow> (Inl (e, None, None), s1)
      | (Inr p, s1) \<Rightarrow>
     (case worker_device w use_mps of
        Inl e \<Rightarrow> (Inl (e, Some p, None), s1)
      | Inr device \<Rightarrow>
     (let device_str = (case seg_param_device w of Some d \<Rightarrow> d | None \<Rightarrow> str_device device) in
     (case with_suffix w audio_file_path ''_16k.wav'' of
        Inl e \<Rightarrow> (Inl (e, Some p, None), s1)
      | Inr converted_path \<Rightarrow>
     (case ffmpeg w audio_file_path converted_path s1 of
        (Some e, s2) \<Rightarrow> (Inl (e, Some p, Some converted_path), s2)
      | (None, s2) \<Rightarrow>
     (case process_with_memory_management w p converted_path device s2 of
        (Inl e, s3) \<Rightarrow> (Inl (e, Some p, Some converted_path), s3)
      | (Inr diarization, s3) \<Rightarrow>
     (let speaker_segments = extract_segments diarization;
          result = success_result speaker_segments device_str (elapsed w);
          s4 = write_json output_json_path result s3;
          s5 = unlink_if_exists converted_path s4;
          s6 = (if device = MPS then emit [MpsEmptyCache] s5 else s5)
      in (Inr result, emit [GcCollect] s6))))))))"

text \<open>
  The inner \<^verbatim>\<open>try\<close> of the handler: the retry on the CPU. Reading a local variable that
  the outer body did not bind raises \<^verbatim>\<open>UnboundLocalError\<close>.
\<close>

definition fallback_try ::
  "world \<Rightarrow> exn \<Rightarrow> pipeline option \<Rightarrow> string option \<Rightarrow> string \<Rightarrow> state \<Rightarrow> (exn + json) \<times> state" where
  "fallback_try w e pl cv output_json_path s =
     (case pl of
        None \<Rightarrow> (Inl (Exn UnboundLocalError ''pipeline''), s)
      | Some p \<Rightarrow>
     (case pipeline_to w p CPU s of
        (Inl e', s1) \<Rightarrow> (Inl e', s1)
      | (Inr p1, s1) \<Rightarrow>
     (case cv of
        None \<Rightarrow> (Inl (Exn UnboundLocalError ''converted_path''), s1)
      | Some converted_path \<Rightarrow>
     (case run_pipeline w p1 converted_path s1 of
        (Inl e', s2) \<Rightarrow> (Inl e', s2)
      | (Inr diarization, s2) \<Rightarrow>
     (let speaker_segments = extract_segments diarization;
          result = fallback_result speaker_segments e;
          s3 = write_json output_json_path result s2
      in (Inr result, unlink_if_exists converted_path s3))))))"

text \<open>
  \<^verbatim>\<open>diarize_isolated\<close>. \<open>Inr\<close> is the value returned; \<open>Inl\<close> is an exception that no
  clause of the function catches, with which the child process ends.
\<close>

definition diarize_isolated ::
  "world \<Rightarrow> string \<Rightarrow> string \<Rightarrow> bool \<Rightarrow> nat \<Rightarrow> state \<Rightarrow> (exn + json option) \<times> state" where
  "diarize_isolated w audio_file_path output_json_path use_mps batch_size s =
     (if \<not> pyannote_available w then
        (Inr None,
         write_json output_json_path (failure_result ''pyannote_mps_helper non disponible'') s)
      else
        (case diarize_try w audio_file_path output_json_path use_mps batch_size s of
           (Inr result, s1) \<Rightarrow> (Inr (Some result), s1)
         | (Inl (e, pl, cv), s1) \<Rightarrow>
             (if exn_class e = RuntimeError then
                (if is_memory_error e then
                   (case fallback_try w e pl cv output_json_path s1 of
                      (Inr result, s2) \<Rightarrow> (Inr (Some result), s2)
                    | (Inl fallback_error, s2) \<Rightarrow>
                        (Inr None,
                         write_json output_json_path (failure_result (str_exn fallback_error)) s2))
                 else
                   (Inr None, write_json output_json_path (failure_result (str_exn e)) s1))
              else (Inl e, s1))))"

subsection \<open>\<^verbatim>\<open>pyannote_isolated.py\<close>: the supervisor \<^verbatim>\<open>run_diarization_isolated\<close>\<close>

text \<open>
  What the parent observes of the child process it starts: whether \<^verbatim>\<open>process.start()\<close>
  raises, what \<^verbatim>\<open>process.is_alive()\<close> answers after each wait, the exit code, and what
  the child has done to the file system by the time the parent looks at it.
\<close>

record child =
  start_raises :: "exn option"
  alive_after_deadline :: bool
  alive_after_terminate :: bool
  alive_after_kill :: bool
  exitcode :: int
  child_effect :: "filesys \<Rightarrow> filesys"

text \<open>
  The parent's environment: its own \<^verbatim>\<open>PYANNOTE_AVAILABLE\<close>, the name that
  \<^verbatim>\<open>tempfile.NamedTemporaryFile\<close> picks, and the child that
  \<^verbatim>\<open>multiprocessing.Process(target=diarize_isolated, args=...)\<close> yields for given
  arguments.
\<close>

record host =
  available :: bool
  tmp_name :: string
  spawn :: "string \<Rightarrow> string \<Rightarrow> bool \<Rightarrow> nat \<Rightarrow> child"

text \<open>The parent's state also tells whether a child it started is alive.\<close>

record sup_state = state +
  child_alive :: bool

text \<open>
  \<^verbatim>\<open>json.load\<close> of the artifact followed by the test of \<^verbatim>\<open>result.get('success')\<close>.
  A document that is no \<^verbatim>\<open>dict\<close> has no \<^verbatim>\<open>get\<close>: the \<^verbatim>\<open>AttributeError\<close> is taken by
  \<^verbatim>\<open>except Exception\<close>, which returns \<^verbatim>\<open>None\<close> as well.
\<close>

definition read_result :: "content \<Rightarrow> json option" where
  "read_result c =
     (case c of
        Unparsable \<Rightarrow> None
      | Doc result \<Rightarrow>
          (case result of
             JObj d \<Rightarrow> (if truthy (dict_get d ''success'') then Some result else None)
           | _ \<Rightarrow> None))"

text \<open>
  The body of the \<^verbatim>\<open>try\<close>, with its \<^verbatim>\<open>except Exception\<close> clause. Seconds are natural
  numbers. The exit code is only printed.
\<close>

definition supervise ::
  "child \<Rightarrow> string \<Rightarrow> nat \<Rightarrow> sup_state \<Rightarrow> json option \<times> sup_state" where
  "supervise c output_path timeout s =
     (case start_raises c of
        Some e \<Rightarrow> (None, emit [Start] s)
      | None \<Rightarrow>
     (let s1 = emit [Start, Join timeout]
                 (s\<lparr>files := child_effect c (files s), child_alive := alive_after_deadline c\<rparr>)
      in if child_alive s1 then
           (let s2 = emit [Terminate, Join 5] (s1\<lparr>child_alive := alive_after_terminate c\<rparr>);
                s3 = (if child_alive s2
                      then emit [Kill, Join 2] (s2\<lparr>child_alive := alive_after_kill c\<rparr>)
                      else s2)
            in (None, unlink_if_exists output_path s3))
         else
           (case files s1 output_path of
              Some c' \<Rightarrow> (read_result c', s1)
            | None \<Rightarrow> (None, s1))))"

text \<open>\<^verbatim>\<open>run_diarization_isolated\<close>, the \<^verbatim>\<open>finally\<close> clause last.\<close>

definition run_diarization_isolated ::
  "host \<Rightarrow> string \<Rightarrow> bool \<Rightarrow> nat \<Rightarrow> nat \<Rightarrow> sup_state \<Rightarrow> json option \<times> sup_state" where
  "run_diarization_isolated h audio_file_path use_mps batch_size timeout s =
     (if \<not> available h then (None, s)
      else
        (let output_path = tmp_name h;
             s0 = emit [CreateTemp output_path]
                    (s\<lparr>files := (files s)(output_path \<mapsto> Unparsable)\<rparr>)
         in (case supervise (spawn h audio_file_path output_path use_mps batch_size)
                    output_path timeout s0 of
               (r, s1) \<Rightarrow> (r, unlink_if_exists output_path s1))))"

text \<open>
  The child that runs the worker to its end before the deadline: its effect on the file
  system is the worker's, and it exits with code 1 when an exception leaves the worker.
\<close>

definition worker_child :: "world \<Rightarrow> string \<Rightarrow> string \<Rightarrow> bool \<Rightarrow> nat \<Rightarrow> child" where
  "worker_child w audio_file_path output_path use_mps batch_size =
     \<lparr>start_raises = None, alive_after_deadline = False, alive_after_terminate = False,
      alive_after_kill = False,
      exitcode =
        (case fst (diarize_isolated w audio_file_path output_path use_mps batch_size
                     \<lparr>files = Map.empty, trace = []\<rparr>) of
           Inl e \<Rightarrow> 1 | Inr r \<Rightarrow> 0),
      child_effect =
        (\<lambda>fs. files (snd (diarize_isolated w audio_file_path output_path use_mps batch_size
                            \<lparr>files = fs, trace = []\<rparr>)))\<rparr>"

subsection \<open>Reading traces and payloads\<close>

text \<open>The documents written to a path, in order.\<close>

fun written :: "string \<Rightarrow> action list \<Rightarrow> json list" where
  "written p [] = []"
| "written p (WriteJson q j # as) = (if q = p then j # written p as else written p as)"
| "written p (a # as) = written p as"

text \<open>The seconds that the waits of a trace may last at most.\<close>

fun wait_budget :: "action list \<Rightarrow> nat" where
  "wait_budget [] = 0"
| "wait_budget (Join n # as) = n + wait_budget as"
| "wait_budget (a # as) = wait_budget as"



definition items :: "json \<Rightarrow> json list" where
  "items j = (case j of JArr xs \<Rightarrow> xs | _ \<Rightarrow> [])"

subsection \<open>CPython's \<^verbatim>\<open>PurePath.with_suffix\<close>\<close>

text \<open>
  The library function behind \<open>with_suffix\<close>, for a normalised POSIX path: a suffix
  that holds a separator, that is not empty and does not start with a dot, or that is a
  lone dot is refused with \<^verbatim>\<open>ValueError\<close>, and so is a path with an empty name; otherwise
  the suffix of the last component is replaced.
\<close>

definition path_name :: "string \<Rightarrow> string" where
  "path_name p = rev (takeWhile (\<lambda>c. c \<noteq> CHR ''/'') (rev p))"

definition name_suffix :: "string \<Rightarrow> string" where
  "name_suffix name =
     (let after = rev (takeWhile (\<lambda>c. c \<noteq> CHR ''.'') (rev name))
      in if CHR ''.'' \<in> set name \<and> after \<noteq> [] \<and> length after + 1 < length name
         then CHR ''.'' # after else [])"

definition pathlib_with_suffix :: "string \<Rightarrow> string \<Rightarrow> exn + string" where
  "pathlib_with_suffix p suffix =
     (if CHR ''/'' \<in> set suffix then Inl (Exn ValueError (''Invalid suffix '' @ suffix))
      else if (suffix \<noteq> [] \<and> \<not> starts_with ''.'' suffix) \<or> suffix = ''.''
        then Inl (Exn ValueError (''Invalid suffix '' @ suffix))
      else if path_name p = [] then Inl (Exn ValueError ''empty name'')
      else Inr (take (length p - length (name_suffix (path_name p))) p @ suffix))"

subsection \<open>Concrete environments\<close>

text \<open>A parent that has started nothing yet, on an empty file system.\<close>

definition fresh_parent :: sup_state where
  "fresh_parent = \<lparr>files = Map.empty, trace = [], child_alive = False\<rparr>"

text \<open>
  Children: one that exits at once leaving the artifact as created, one that outlives the
  deadline and ends on the termination signal, one that outlives the deadline and both
  signals for the length of both waits, one that cannot be started, and one that writes a
  document and exits.
\<close>

definition silent_child :: child where
  "silent_child =
     \<lparr>start_raises = None, alive_after_deadline = False, alive_after_terminate = False,
      alive_after_kill = False, exitcode = - 9, child_effect = (\<lambda>fs. fs)\<rparr>"

definition slow_child :: child where
  "slow_child = silent_child\<lparr>alive_after_deadline := True\<rparr>"

definition stuck_child :: child where
  "stuck_child =
     silent_child\<lparr>alive_after_deadline := True, alive_after_terminate := True,
                  alive_after_kill := True\<rparr>"

definition unstartable_child :: child where
  "unstartable_child =
     silent_child\<lparr>start_raises := Some (Exn OSError ''[Errno 11] Resource temporarily unavailable'')\<rparr>"

definition writing_child :: "string \<Rightarrow> json \<Rightarrow> child" where
  "writing_child path j =
     silent_child\<lparr>exitcode := 0, child_effect := (\<lambda>fs. fs(path \<mapsto> Doc j))\<rparr>"

definition host_of :: "(string \<Rightarrow> child) \<Rightarrow> host" where
  "host_of c = \<lparr>available = True, tmp_name = ''/tmp/tmpk3x9.json'',
                spawn = (\<lambda>audio_file_path output_path use_mps batch_size. c output_path)\<rparr>"

definition offline_host :: host where
  "offline_host = (host_of (\<lambda>p. silent_child))\<lparr>available := False\<rparr>"

text \<open>
  Worlds of the worker. In \<open>mac_world\<close> every collaborator succeeds, the accelerator is
  there, and the path library accepts the suffix the worker asks for and appends it. The
  others differ from it in one response each: the first inference runs out of accelerator
  memory, every inference does, the first inference fails with the operating system's
  out-of-memory error, the self-test fails, the transcoder exits with a non-zero status,
  and the path library is CPython's.
\<close>

definition three_tracks :: "track list" where
  "three_tracks =
     [\<lparr>turn_start = 0, turn_end = 6 / 5, speaker = ''SPEAKER_01''\<rparr>,
      \<lparr>turn_start = 6 / 5, turn_end = 3, speaker = ''SPEAKER_00''\<rparr>,
      \<lparr>turn_start = 3, turn_end = 4, speaker = ''SPEAKER_01''\<rparr>]"

definition mac_world :: world where
  "mac_world =
     \<lparr>pyannote_available = True, has_mps_backend = True, mps_is_available = True,
      selftest_failure = None,
      from_pretrained = Inr \<lparr>on_device = CPU, embedding_batch_size = Some 32\<rparr>,
      has_batch_attr = True, to_raises = (\<lambda>d. None), seg_param_device = Some ''mps:0'',
      with_suffix = (\<lambda>p suffix. Inr (p @ suffix)), ffmpeg_raises = None,
      inference = (\<lambda>n. Inr three_tracks), elapsed = 4 / 5\<rparr>"

definition oom_world :: world where
  "oom_world =
     mac_world\<lparr>inference :=
       (\<lambda>n. if n = 0 then Inl (Exn RuntimeError ''MPS backend out of memory'')
            else Inr three_tracks)\<rparr>"



definition selftest_fail_world :: world where
  "selftest_fail_world =
     mac_world\<lparr>selftest_failure := Some (Multiply, Exn RuntimeError ''MPS backend failure'')\<rparr>"

definition transcoder_fail_world :: world where
  "transcoder_fail_world =
     mac_world\<lparr>ffmpeg_raises :=
       Some (Exn CalledProcessError ''Command ffmpeg returned non-zero exit status 1.'')\<rparr>"

definition cpython_world :: world where
  "cpython_world = mac_world\<lparr>with_suffix := pathlib_with_suffix\<rparr>"

text \<open>
  The child process as it starts: the uploaded audio file and the empty artifact that the
  parent created are there, and nothing has been done yet.
\<close>

definition fresh_worker :: state where
  "fresh_worker =
     \<lparr>files = [''/tmp/a.mp3'' \<mapsto> Unparsable, ''/tmp/out.json'' \<mapsto> Unparsable], trace = []\<rparr>"

text \<open>The cache clearing and the collection pass fit for a device, as a trace.\<close>

fun cache_ops :: "device \<Rightarrow> action list" where
  "cache_ops MPS = [MpsEmptyCache, GcCollect]"
| "cache_ops CUDA = [CudaEmptyCache, GcCollect]"
| "cache_ops CPU = [GcCollect]"

section \<open>Properties\<close>

subsection \<open>Traces\<close>

lemma runs_append: "runs (xs @ ys) = runs xs @ runs ys"
  by (simp add: runs_def)

lemma written_append: "written p (xs @ ys) = written p xs @ written p ys"
  by (induction p xs rule: written.induct) simp_all

lemma wait_budget_append: "wait_budget (xs @ ys) = wait_budget xs + wait_budget ys"
  by (induction xs rule: wait_budget.induct) simp_all

lemma unlink_if_exists_absent: "files (unlink_if_exists p s) p = None"
  by (simp add: unlink_if_exists_def emit_def)

subsection \<open>The device selector\<close>

text \<open>
  C6: \<open>get_safe_device\<close> returns the accelerator exactly when it is preferred, the
  backend is there and reported available, and the self-test raises nothing; in every
  other case, whatever \<open>fallback_to_cpu\<close> says, it returns the CPU. The self-test is run
  at most once: the trace grows by the steps of one self-test (allocation on the
  accelerator, one multiplication, release, cache purge, collection), cut at the step
  that raises, and by nothing when the test is not attempted.
\<close>

theorem get_safe_device_selects:
  "fst (get_safe_device w prefer_mps fallback_to_cpu s) =
     (if prefer_mps \<and> has_mps_backend w \<and> mps_is_available w \<and> selftest_failure w = None
      then MPS else CPU)
   \<and> trace (snd (get_safe_device w prefer_mps fallback_to_cpu s)) =
     trace s @
     (if prefer_mps \<and> has_mps_backend w \<and> mps_is_available w then
        (case selftest_failure w of
           None \<Rightarrow> [TensorToMps, TensorMul, TensorDel, MpsEmptyCache, GcCollect]
         | Some (k, e) \<Rightarrow> steps_before k)
      else [])"
  by (auto simp: get_safe_device_def selftest_def emit_def split: option.splits prod.splits)

theorem get_safe_device_selects_witness:
  "fst (get_safe_device selftest_fail_world True False fresh_worker) = CPU
   \<and> trace (snd (get_safe_device selftest_fail_world True False fresh_worker)) = [TensorToMps]
   \<and> fst (get_safe_device mac_world True True fresh_worker) = MPS
   \<and> fst (get_safe_device mac_world False True fresh_worker) = CPU"
  using get_safe_device_selects [of selftest_fail_world True False fresh_worker]
    get_safe_device_selects [of mac_world True True fresh_worker]
    get_safe_device_selects [of mac_world False True fresh_worker]
  by (simp add: selftest_fail_world_def mac_world_def fresh_worker_def)

subsection \<open>The execution wrapper\<close>

text \<open>
  C8, as the code has it: \<open>process_with_memory_management\<close> clears the cache of the
  device and forces a collection before the inference call on every path, and again
  after the call when the call returns. When the call raises, the exception leaves the
  wrapper with neither issued a second time.
\<close>

theorem memory_management_trace:
  "trace (snd (process_with_memory_management w p a d s)) =
     trace s @ cache_ops d @ [RunPipeline (on_device p) a]
     @ (case fst (process_with_memory_management w p a d s) of
          Inr r \<Rightarrow> cache_ops d
        | Inl e \<Rightarrow> [])
   \<and> fst (process_with_memory_management w p a d s) = inference w (length (runs (trace s)))"
  by (cases d; cases "inference w (length (runs (trace s)))")
     (simp_all add: process_with_memory_management_def run_pipeline_def clear_cache_def
        emit_def runs_def)

theorem memory_management_trace_witness:
  "trace (snd (process_with_memory_management mac_world
                 \<lparr>on_device = MPS, embedding_batch_size = Some 16\<rparr> ''/tmp/a_16k.wav'' MPS
                 fresh_worker)) =
     [MpsEmptyCache, GcCollect, RunPipeline MPS ''/tmp/a_16k.wav'', MpsEmptyCache, GcCollect]"
  using memory_management_trace [of mac_world
      "\<lparr>on_device = MPS, embedding_batch_size = Some 16\<rparr>" "''/tmp/a_16k.wav''" MPS fresh_worker]
  by (simp add: mac_world_def fresh_worker_def runs_def)

text \<open>
  C8 as stated fails where the inference raises: on the accelerator, with the first
  inference out of memory, the wrapper ends after the call without a second cache clear or
  collection.
\<close>

theorem memory_management_counterexample:
  "fst (process_with_memory_management oom_world
          \<lparr>on_device = MPS, embedding_batch_size = Some 16\<rparr> ''/tmp/a_16k.wav'' MPS
          fresh_worker) = Inl (Exn RuntimeError ''MPS backend out of memory'')
   \<and> trace (snd (process_with_memory_management oom_world
                   \<lparr>on_device = MPS, embedding_batch_size = Some 16\<rparr> ''/tmp/a_16k.wav'' MPS
                   fresh_worker)) =
       [MpsEmptyCache, GcCollect, RunPipeline MPS ''/tmp/a_16k.wav'']"
  by (simp add: process_with_memory_management_def run_pipeline_def clear_cache_def emit_def
      runs_def oom_world_def mac_world_def fresh_worker_def)

subsection \<open>The supervisor\<close>

text \<open>
  C10: when the helper module could not be imported, \<open>run_diarization_isolated\<close> returns
  \<^verbatim>\<open>None\<close> and leaves the state as it was: no temporary file is created, no process is
  started, and the file system is untouched.
\<close>

theorem unavailable_returns_at_once:
  "\<not> available h \<Longrightarrow> run_diarization_isolated h a u b t s = (None, s)"
  by (simp add: run_diarization_isolated_def)

theorem unavailable_returns_at_once_witness:
  "\<not> available offline_host
   \<and> run_diarization_isolated offline_host ''/tmp/a.mp3'' True 16 600 fresh_parent
     = (None, fresh_parent)"
proof -
  have h: "\<not> available offline_host"
    by (simp add: offline_host_def host_of_def)
  show ?thesis
    using h unavailable_returns_at_once [OF h, of "''/tmp/a.mp3''" True 16 600 fresh_parent]
    by simp
qed

text \<open>
  C4: the temporary file does not exist before the call (its name is the fresh one that
  \<^verbatim>\<open>NamedTemporaryFile\<close> picks), and it does not exist when \<open>run_diarization_isolated\<close>
  returns, whatever the child did and also when starting the child raised.
\<close>

theorem artifact_absent_on_return:
  "files s (tmp_name h) = None \<Longrightarrow>
   files (snd (run_diarization_isolated h a u b t s)) (tmp_name h) = None"
  by (simp add: run_diarization_isolated_def Let_def unlink_if_exists_absent
      split: prod.splits)

theorem artifact_absent_on_return_witness:
  "files fresh_parent (tmp_name (host_of (\<lambda>p. writing_child p (failure_result ''boom'')))) = None
   \<and> files (snd (run_diarization_isolated
                   (host_of (\<lambda>p. writing_child p (failure_result ''boom'')))
                   ''/tmp/a.mp3'' True 16 600 fresh_parent))
        (tmp_name (host_of (\<lambda>p. writing_child p (failure_result ''boom'')))) = None
   \<and> files fresh_parent (tmp_name (host_of (\<lambda>p. unstartable_child))) = None
   \<and> files (snd (run_diarization_isolated (host_of (\<lambda>p. unstartable_child))
                   ''/tmp/a.mp3'' True 16 600 fresh_parent))
        (tmp_name (host_of (\<lambda>p. unstartable_child))) = None"
proof -
  have h: "files fresh_parent (tmp_name (host_of (\<lambda>p. writing_child p (failure_result ''boom''))))
           = None"
    by (simp add: fresh_parent_def)
  have k: "files fresh_parent (tmp_name (host_of (\<lambda>p. unstartable_child))) = None"
    by (simp add: fresh_parent_def)
  show ?thesis
    using h k artifact_absent_on_return [OF h, of "''/tmp/a.mp3''" True 16 600]
      artifact_absent_on_return [OF k, of "''/tmp/a.mp3''" True 16 600]
    by simp
qed

text \<open>
  C1, as the code has it: \<open>run_diarization_isolated\<close> always returns, and what it returns
  is either the dictionary read from the artifact or \<^verbatim>\<open>None\<close>. It is the dictionary exactly
  when the module is available, the child started and was no longer alive at the
  deadline, and the artifact holds a JSON object whose \<^verbatim>\<open>success\<close> is true in Python's
  sense. A failure payload, a missing or unparsable artifact, a timeout and an exception
  while starting the child all give \<^verbatim>\<open>None\<close>.
\<close>

theorem supervisor_result:
  "fst (run_diarization_isolated h a u b t s) =
     (if available h \<and> start_raises (spawn h a (tmp_name h) u b) = None
         \<and> \<not> alive_after_deadline (spawn h a (tmp_name h) u b) then
        (case child_effect (spawn h a (tmp_name h) u b) ((files s)(tmp_name h \<mapsto> Unparsable))
                (tmp_name h) of
           Some (Doc (JObj d)) \<Rightarrow> if truthy (dict_get d ''success'') then Some (JObj d) else None
         | _ \<Rightarrow> None)
      else None)"
  by (auto simp: run_diarization_isolated_def supervise_def Let_def emit_def read_result_def
      unlink_if_exists_def split: prod.splits option.splits content.splits json.splits)

theorem supervisor_result_witness:
  "fst (run_diarization_isolated
          (host_of (\<lambda>p. writing_child p (success_result [] ''cpu'' (4 / 5))))
          ''/tmp/a.mp3'' False 16 600 fresh_parent)
   = Some (success_result [] ''cpu'' (4 / 5))"
  using supervisor_result [of "host_of (\<lambda>p. writing_child p (success_result [] ''cpu'' (4 / 5)))"
      "''/tmp/a.mp3''" False 16 600 fresh_parent]
  by (simp add: host_of_def writing_child_def silent_child_def fresh_parent_def
      success_result_def dict_get_def)

text \<open>
  C1 as stated fails: a child that outlives the deadline, a child that writes the failure
  payload with the reason \<^verbatim>\<open>boom\<close>, and a child that dies leaving the artifact empty all
  make the supervisor return the same \<^verbatim>\<open>None\<close>, which carries no reason.
\<close>

theorem supervisor_result_counterexample:
  "fst (run_diarization_isolated (host_of (\<lambda>p. slow_child))
          ''/tmp/a.mp3'' True 16 600 fresh_parent) = None
   \<and> fst (run_diarization_isolated (host_of (\<lambda>p. writing_child p (failure_result ''boom'')))
            ''/tmp/a.mp3'' True 16 600 fresh_parent) = None
   \<and> fst (run_diarization_isolated (host_of (\<lambda>p. silent_child))
            ''/tmp/a.mp3'' True 16 600 fresh_parent) = None"
  by (simp add: run_diarization_isolated_def supervise_def Let_def emit_def
      unlink_if_exists_def read_result_def dict_get_def host_of_def slow_child_def
      silent_child_def writing_child_def failure_result_def fresh_parent_def)

text \<open>
  C3, as the code has it: when the child is alive at the deadline, the supervisor sends
  the termination signal and waits up to 5 seconds; only if the child is still alive it
  sends the kill signal and waits up to 2 seconds; it deletes the artifact and returns
  \<^verbatim>\<open>None\<close>. Its waits add up to at most the deadline plus 7 seconds. The child is alive at
  the return exactly when it outlived both signals and both waits, which the supervisor
  does not check.
\<close>

theorem timeout_escalation:
  assumes "available h"
    and "start_raises (spawn h a (tmp_name h) u b) = None"
    and "alive_after_deadline (spawn h a (tmp_name h) u b)"
  shows "fst (run_diarization_isolated h a u b t s) = None
    \<and> trace (snd (run_diarization_isolated h a u b t s)) =
        trace s @ [CreateTemp (tmp_name h), Start, Join t, Terminate, Join 5]
        @ (if alive_after_terminate (spawn h a (tmp_name h) u b) then [Kill, Join 2] else [])
        @ (if child_effect (spawn h a (tmp_name h) u b) ((files s)(tmp_name h \<mapsto> Unparsable))
                (tmp_name h) \<noteq> None
           then [Unlink (tmp_name h)] else [])
    \<and> wait_budget (trace (snd (run_diarization_isolated h a u b t s)))
        \<le> wait_budget (trace s) + t + 5 + 2
    \<and> files (snd (run_diarization_isolated h a u b t s)) (tmp_name h) = None
    \<and> child_alive (snd (run_diarization_isolated h a u b t s)) =
        (alive_after_terminate (spawn h a (tmp_name h) u b)
         \<and> alive_after_kill (spawn h a (tmp_name h) u b))"
  using assms
  by (auto simp: run_diarization_isolated_def supervise_def Let_def emit_def
      unlink_if_exists_def wait_budget_append)

theorem timeout_escalation_witness:
  "fst (run_diarization_isolated (host_of (\<lambda>p. slow_child))
          ''/tmp/a.mp3'' True 16 600 fresh_parent) = None
   \<and> trace (snd (run_diarization_isolated (host_of (\<lambda>p. slow_child))
                   ''/tmp/a.mp3'' True 16 600 fresh_parent)) =
       [CreateTemp ''/tmp/tmpk3x9.json'', Start, Join 600, Terminate, Join 5,
        Unlink ''/tmp/tmpk3x9.json'']
   \<and> \<not> child_alive (snd (run_diarization_isolated (host_of (\<lambda>p. slow_child))
                           ''/tmp/a.mp3'' True 16 600 fresh_parent))"
  using timeout_escalation [of "host_of (\<lambda>p. slow_child)" "''/tmp/a.mp3''" True 16 600
      fresh_parent]
  by (simp add: host_of_def slow_child_def silent_child_def fresh_parent_def)

text \<open>
  C3 as stated fails on its last part: a child that outlives the deadline, the
  termination signal and the kill signal for the length of the waits is alive when the
  supervisor returns.
\<close>

theorem timeout_escalation_counterexample:
  "alive_after_deadline (spawn (host_of (\<lambda>p. stuck_child)) ''/tmp/a.mp3''
                           (tmp_name (host_of (\<lambda>p. stuck_child))) True 16)
   \<and> fst (run_diarization_isolated (host_of (\<lambda>p. stuck_child))
            ''/tmp/a.mp3'' True 16 600 fresh_parent) = None
   \<and> child_alive (snd (run_diarization_isolated (host_of (\<lambda>p. stuck_child))
                         ''/tmp/a.mp3'' True 16 600 fresh_parent))"
  by (simp add: run_diarization_isolated_def supervise_def Let_def emit_def
      unlink_if_exists_def host_of_def stuck_child_def silent_child_def fresh_parent_def)

subsection \<open>The worker\<close>

lemma runs_Nil [simp]: "runs [] = []"
  by (simp add: runs_def)

lemma runs_Cons [simp]: "runs (a # as) = (if is_run a then a # runs as else runs as)"
  by (simp add: runs_def)



lemma pipeline_to_quiet:
  "runs (trace (snd (pipeline_to w p d s))) = runs (trace s)
   \<and> written out (trace (snd (pipeline_to w p d s))) = written out (trace s)
   \<and> files (snd (pipeline_to w p d s)) = files s"
  by (simp add: pipeline_to_def emit_def runs_append written_append split: option.splits)














lemmas worker_defs = diarize_isolated_def diarize_try_def fallback_try_def
  create_pyannote_pipeline_safe_def get_safe_device_def selftest_def pipeline_to_def
  worker_device_def ffmpeg_def process_with_memory_management_def run_pipeline_def
  clear_cache_def emit_def write_json_def unlink_if_exists_def Let_def




lemma cpython_run:
  "diarize_isolated cpython_world ''/tmp/a.mp3'' ''/tmp/out.json'' True 16 fresh_worker =
   (Inl (Exn ValueError ''Invalid suffix _16k.wav''),
    \<lparr>files = [''/tmp/a.mp3'' \<mapsto> Unparsable, ''/tmp/out.json'' \<mapsto> Unparsable],
     trace = [TensorToMps, TensorMul, TensorDel, MpsEmptyCache, GcCollect, PipelineTo MPS]\<rparr>)"
  by (simp add: worker_defs cpython_world_def mac_world_def fresh_worker_def
      pathlib_with_suffix_def)

lemma transcoder_run:
  "diarize_isolated transcoder_fail_world ''/tmp/a.mp3'' ''/tmp/out.json'' True 16 fresh_worker =
   (Inl (Exn CalledProcessError ''Command ffmpeg returned non-zero exit status 1.''),
    \<lparr>files = [''/tmp/a.mp3'' \<mapsto> Unparsable, ''/tmp/out.json'' \<mapsto> Unparsable],
     trace = [TensorToMps, TensorMul, TensorDel, MpsEmptyCache, GcCollect, PipelineTo MPS,
              Ffmpeg ''/tmp/a.mp3'' ''/tmp/a.mp3_16k.wav'']\<rparr>)"
  by (simp add: worker_defs transcoder_fail_world_def mac_world_def fresh_worker_def)







text \<open>
  C2 fails on the code. With CPython's path library the suffix \<^verbatim>\<open>_16k.wav\<close>, which has no
  leading dot, is refused with \<^verbatim>\<open>ValueError\<close>; with a path library that accepts it, a
  transcoder that exits with a non-zero status makes \<^verbatim>\<open>subprocess.run\<close> raise
  \<^verbatim>\<open>CalledProcessError\<close>. Neither is a \<^verbatim>\<open>RuntimeError\<close>, so in both runs the exception
  leaves \<open>diarize_isolated\<close>, nothing is written, and the artifact stays as the parent
  created it.
\<close>

theorem worker_dies_without_payload:
  "fst (diarize_isolated cpython_world ''/tmp/a.mp3'' ''/tmp/out.json'' True 16 fresh_worker)
     = Inl (Exn ValueError ''Invalid suffix _16k.wav'')
   \<and> written ''/tmp/out.json''
        (trace (snd (diarize_isolated cpython_world ''/tmp/a.mp3'' ''/tmp/out.json'' True 16
                       fresh_worker))) = []
   \<and> files (snd (diarize_isolated cpython_world ''/tmp/a.mp3'' ''/tmp/out.json'' True 16
                   fresh_worker)) ''/tmp/out.json'' = Some Unparsable
   \<and> fst (diarize_isolated transcoder_fail_world ''/tmp/a.mp3'' ''/tmp/out.json'' True 16
            fresh_worker)
     = Inl (Exn CalledProcessError ''Command ffmpeg returned non-zero exit status 1.'')
   \<and> written ''/tmp/out.json''
        (trace (snd (diarize_isolated transcoder_fail_world ''/tmp/a.mp3'' ''/tmp/out.json''
                       True 16 fresh_worker))) = []
   \<and> files (snd (diarize_isolated transcoder_fail_world ''/tmp/a.mp3'' ''/tmp/out.json''
                   True 16 fresh_worker)) ''/tmp/out.json'' = Some Unparsable"
  by (simp add: cpython_run transcoder_run)

text \<open>
  The supervisor over children that run the worker: it returns the success payload of a
  run that succeeds, and \<^verbatim>\<open>None\<close> for the two runs above, whose artifact is empty.
\<close>

lemma supervised_worker_runs:
  "fst (run_diarization_isolated
          (host_of (\<lambda>p. worker_child mac_world ''/tmp/a.mp3'' p True 16))
          ''/tmp/a.mp3'' True 16 600 fresh_parent)
     = Some (success_result (extract_segments three_tracks) ''mps:0'' (4 / 5))
   \<and> fst (run_diarization_isolated
            (host_of (\<lambda>p. worker_child transcoder_fail_world ''/tmp/a.mp3'' p True 16))
            ''/tmp/a.mp3'' True 16 600 fresh_parent) = None
   \<and> fst (run_diarization_isolated
            (host_of (\<lambda>p. worker_child cpython_world ''/tmp/a.mp3'' p True 16))
            ''/tmp/a.mp3'' True 16 600 fresh_parent) = None"
  by (simp add: run_diarization_isolated_def supervise_def read_result_def host_of_def
      worker_child_def fresh_parent_def worker_defs transcoder_fail_world_def
      cpython_world_def mac_world_def pathlib_with_suffix_def success_result_def dict_get_def)

end
